theory Spec2Isabelle
  imports Complex_Main "HOL-Library.Sublist"
begin

section \<open>Strings\<close>

text \<open>
  A Python \<open>str\<close> is a list of characters. \<open>str.lower()\<close> is modelled on the ASCII
  letters, which is the range every keyword and blacklist token of the repository lives in;
  other characters are left as they are.
\<close>

definition lower_char :: "char \<Rightarrow> char" where
  "lower_char c =
     (case map_of (zip ''ABCDEFGHIJKLMNOPQRSTUVWXYZ'' ''abcdefghijklmnopqrstuvwxyz'') c of
        None \<Rightarrow> c
      | Some d \<Rightarrow> d)"

definition lower :: "string \<Rightarrow> string" where
  "lower s = map lower_char s"

text \<open>\<open>sub in s\<close> of Python: \<open>sub\<close> occurs in \<open>s\<close> as a contiguous run; the empty string
  occurs in every string.\<close>

fun py_in :: "string \<Rightarrow> string \<Rightarrow> bool" where
  "py_in sub [] = (sub = [])"
| "py_in sub (c # cs) = (prefix sub (c # cs) \<or> py_in sub cs)"

text \<open>Truthiness of a value fetched with \<open>dict.get\<close>: a missing key gives \<open>None\<close>, and both
  \<open>None\<close> and the empty string are falsy.\<close>

definition truthy :: "string option \<Rightarrow> bool" where
  "truthy v = (case v of None \<Rightarrow> False | Some s \<Rightarrow> s \<noteq> [])"

definition get_str :: "string option \<Rightarrow> string" where
  "get_str v = (case v of None \<Rightarrow> [] | Some s \<Rightarrow> s)"


section \<open>Articles (bot\_lib.py)\<close>

text \<open>
  An article is the dictionary the news provider returns. Every key the code reads is a
  field; \<open>None\<close> is a missing key. \<open>a_source\<close> is the nested \<open>source\<close> dictionary.
\<close>

record source_info =
  s_uri :: "string option"
  s_title :: "string option"

record article =
  a_title :: "string option"
  a_url :: "string option"
  a_body :: "string option"
  a_source :: "source_info option"
  a_image :: "string option"
  a_socialScore :: "real option"
  a_sentiment :: "real option"
  a_date :: "string option"

definition source_uri :: "article \<Rightarrow> string" where
  "source_uri a = (case a_source a of None \<Rightarrow> [] | Some s \<Rightarrow> get_str (s_uri s))"

definition get_num :: "real option \<Rightarrow> real" where
  "get_num v = (case v of None \<Rightarrow> 0 | Some x \<Rightarrow> x)"

text \<open>The body of the loop of \<open>filter_articles\<close>: \<open>True\<close> when the article reaches
  \<open>filtered.append(article)\<close>, \<open>False\<close> when one of the \<open>continue\<close> statements is taken.\<close>

definition passes_filters :: "string list \<Rightarrow> string list \<Rightarrow> real \<Rightarrow> real \<Rightarrow> article \<Rightarrow> bool" where
  "passes_filters blacklisted_sources blacklisted_keywords min_social_score min_sentiment a =
     (if \<not> truthy (a_title a) \<or> \<not> truthy (a_url a) \<or> \<not> truthy (a_body a) then False
      else if \<exists>b \<in> set blacklisted_sources. py_in (lower b) (lower (source_uri a)) then False
      else if \<exists>k \<in> set blacklisted_keywords.
                py_in (lower k) (lower (get_str (a_title a))) \<or>
                py_in (lower k) (lower (get_str (a_body a))) then False
      else if get_num (a_socialScore a) < min_social_score then False
      else if get_num (a_sentiment a) < min_sentiment then False
      else True)"

definition filter_articles ::
  "article list \<Rightarrow> string list \<Rightarrow> string list \<Rightarrow> real \<Rightarrow> real \<Rightarrow> article list" where
  "filter_articles articles blacklisted_sources blacklisted_keywords min_social_score min_sentiment =
     filter (passes_filters blacklisted_sources blacklisted_keywords min_social_score min_sentiment)
       articles"

text \<open>\<open>remove_duplicate_articles\<close>: the loop carries \<open>seen_urls\<close>; an article is kept when
  its url is truthy and not yet seen.\<close>

fun dedup_loop :: "string set \<Rightarrow> article list \<Rightarrow> article list" where
  "dedup_loop seen_urls [] = []"
| "dedup_loop seen_urls (a # as) =
     (if truthy (a_url a) \<and> get_str (a_url a) \<notin> seen_urls
      then a # dedup_loop (insert (get_str (a_url a)) seen_urls) as
      else dedup_loop seen_urls as)"

definition remove_duplicate_articles :: "article list \<Rightarrow> article list" where
  "remove_duplicate_articles articles = dedup_loop {} articles"

text \<open>The constants of config.py that the filters are called with.\<close>

definition MIN_SOCIAL_SCORE :: real where "MIN_SOCIAL_SCORE = 5"
definition MIN_ARTICLE_LENGTH :: nat where "MIN_ARTICLE_LENGTH = 200"
definition default_min_sentiment :: real where "default_min_sentiment = - 1"

definition BLACKLISTED_SOURCES :: "string list" where
  "BLACKLISTED_SOURCES = [''example-spam-site.com'', ''clickbait-news.com'', ''low-quality-source.com'']"

definition BLACKLISTED_KEYWORDS :: "string list" where
  "BLACKLISTED_KEYWORDS = [''sponsored'', ''advertisement'', ''crypto scam'', ''get rich quick'']"

text \<open>An article with every required field, an engagement score above the threshold and
  a body of five characters.\<close>

definition short_article :: article where
  "short_article =
     \<lparr>a_title = Some ''Hashrate up'', a_url = Some ''https://example.com/1'',
      a_body = Some ''short'', a_source = Some \<lparr>s_uri = Some ''example.com'', s_title = None\<rparr>,
      a_image = None, a_socialScore = Some 10, a_sentiment = Some 0, a_date = None\<rparr>"


section \<open>Relevance filter (src/services/filtering.py)\<close>

definition MINING_KEYWORDS :: "string list" where
  "MINING_KEYWORDS =
     [''mining'', ''miner'', ''miners'', ''hashrate'', ''hash rate'',
      ''asic'', ''mining pool'', ''mining rig'', ''mining farm'',
      ''difficulty'', ''difficulty adjustment'', ''block reward'',
      ''mining hardware'', ''mining operation'', ''mining company'',
      ''proof of work'', ''pow'', ''mining equipment'', ''mining power'',
      ''terahash'', ''petahash'', ''exahash'', ''th/s'', ''ph/s'', ''eh/s'']"

definition content_of :: "article \<Rightarrow> string" where
  "content_of a = lower (get_str (a_title a)) @ '' '' @ lower (get_str (a_body a))"

text \<open>The counting loop shared by \<open>_is_mining_relevant\<close> and \<open>get_mining_keyword_count\<close>.\<close>

fun count_keywords :: "string list \<Rightarrow> string \<Rightarrow> int" where
  "count_keywords [] content = 0"
| "count_keywords (keyword # ks) content =
     (if py_in keyword content then 1 else 0) + count_keywords ks content"

definition get_mining_keyword_count :: "article \<Rightarrow> int" where
  "get_mining_keyword_count a = count_keywords MINING_KEYWORDS (content_of a)"

definition is_mining_relevant :: "int \<Rightarrow> article \<Rightarrow> bool" where
  "is_mining_relevant min_mining_terms a =
     (count_keywords MINING_KEYWORDS (content_of a) \<ge> min_mining_terms)"

text \<open>
  The relevance gate as the specification words it: the occurrences of the terms are
  counted in the concatenation \<open>title + body\<close>, compared case-insensitively.
  \<open>occurrences t s\<close> is the number of positions of \<open>s\<close> at which \<open>t\<close> starts.
\<close>

fun occurrences :: "string \<Rightarrow> string \<Rightarrow> nat" where
  "occurrences t [] = (if t = [] then 1 else 0)"
| "occurrences t (c # cs) = (if prefix t (c # cs) then 1 else 0) + occurrences t cs"

definition spec_occurrence_count :: "article \<Rightarrow> int" where
  "spec_occurrence_count a =
     int (sum_list (map (\<lambda>t. occurrences (lower t) (lower (get_str (a_title a) @ get_str (a_body a))))
                        MINING_KEYWORDS))"

definition spec_relevance_passes :: "int \<Rightarrow> article \<Rightarrow> bool" where
  "spec_relevance_passes min_relevance_terms a = (spec_occurrence_count a \<ge> min_relevance_terms)"

text \<open>An article whose title is \<open>mining\<close> and whose body is \<open>farm\<close>.\<close>

definition mining_farm :: article where
  "mining_farm =
     \<lparr>a_title = Some ''mining'', a_url = None, a_body = Some ''farm'', a_source = None,
      a_image = None, a_socialScore = None, a_sentiment = None, a_date = None\<rparr>"


section \<open>Fetching with retry (bot\_lib.py)\<close>

text \<open>
  \<open>fetch_bitcoin_mining_articles\<close> talks to the news provider. Its \<open>k\<close>-th call within one
  run of \<open>fetch_articles_with_retry\<close> (counted from 0) either raises an exception, of which
  the code reads \<open>str(e)\<close> only, or returns the articles: \<open>fetch k\<close> is \<open>Inl\<close> of the message
  or \<open>Inr\<close> of the list. \<open>time.sleep\<close> is recorded: a run returns what the function
  returns or raises, the list of the waits in seconds, and the number of calls made.
\<close>

type_synonym fetch_result = "string + article list"

definition is_auth_error :: "string \<Rightarrow> bool" where
  "is_auth_error error_msg = (py_in ''invalid api key'' error_msg \<or> py_in ''authentication'' error_msg)"

definition is_rate_limit :: "string \<Rightarrow> bool" where
  "is_rate_limit error_msg = py_in ''rate limit'' error_msg"

text \<open>The loop \<open>for attempt in range(max_retries)\<close>; the last argument counts the iterations
  that remain.\<close>

fun retry_loop :: "(nat \<Rightarrow> fetch_result) \<Rightarrow> int \<Rightarrow> nat \<Rightarrow> nat \<Rightarrow> fetch_result \<times> int list \<times> nat" where
  "retry_loop fetch max_retries attempt 0 = (Inr [], [], 0)"
| "retry_loop fetch max_retries attempt (Suc n) =
     (case fetch attempt of
        Inr articles \<Rightarrow> (Inr articles, [], 1)
      | Inl e \<Rightarrow>
          (let error_msg = lower e in
           if is_auth_error error_msg then (Inl e, [], 1)
           else if is_rate_limit error_msg then
             (if int attempt < max_retries - 1 then
                (case retry_loop fetch max_retries (Suc attempt) n of
                   (r, waits, calls) \<Rightarrow> (r, (2 ^ attempt * 10) # waits, Suc calls))
              else (Inl e, [], 1))
           else if int attempt < max_retries - 1 then
             (case retry_loop fetch max_retries (Suc attempt) n of
                (r, waits, calls) \<Rightarrow> (r, (2 ^ attempt * 5) # waits, Suc calls))
           else (Inl e, [], 1)))"

definition fetch_articles_with_retry :: "(nat \<Rightarrow> fetch_result) \<Rightarrow> int \<Rightarrow> fetch_result \<times> int list \<times> nat" where
  "fetch_articles_with_retry fetch max_retries = retry_loop fetch max_retries 0 (nat max_retries)"

text \<open>The classes of an attempt's outcome, and the wait the code computes after
  attempt \<open>k\<close>.\<close>

definition fatal_at :: "(nat \<Rightarrow> fetch_result) \<Rightarrow> nat \<Rightarrow> bool" where
  "fatal_at fetch k = (case fetch k of Inl e \<Rightarrow> is_auth_error (lower e) | Inr _ \<Rightarrow> False)"

definition retryable_at :: "(nat \<Rightarrow> fetch_result) \<Rightarrow> nat \<Rightarrow> bool" where
  "retryable_at fetch k = (case fetch k of Inl e \<Rightarrow> \<not> is_auth_error (lower e) | Inr _ \<Rightarrow> False)"

definition rate_limited_at :: "(nat \<Rightarrow> fetch_result) \<Rightarrow> nat \<Rightarrow> bool" where
  "rate_limited_at fetch k =
     (case fetch k of Inl e \<Rightarrow> \<not> is_auth_error (lower e) \<and> is_rate_limit (lower e) | Inr _ \<Rightarrow> False)"

definition backoff :: "(nat \<Rightarrow> fetch_result) \<Rightarrow> nat \<Rightarrow> int" where
  "backoff fetch k = (if rate_limited_at fetch k then 10 * 2 ^ k else 5 * 2 ^ k)"


text \<open>A provider that answers the first call with a rate-limit error, the second with a
  connection error and every later call with an authentication error.\<close>

definition flaky_fetch :: "nat \<Rightarrow> fetch_result" where
  "flaky_fetch k =
     (if k = 0 then Inl ''Rate limit exceeded''
      else if k = 1 then Inl ''Connection reset by peer''
      else Inl ''Invalid API key'')"


section \<open>Persisted stores and the clock (main.py)\<close>

text \<open>
  The three JSON files are the state: the queue, the posted ledger and the daily-brief
  cache, each a list. \<open>load_json_file\<close> reads a list (the empty list when the file is
  missing or unreadable) and \<open>save_json_file\<close> replaces it; a write that fails is outside
  the model. An exception is a value of \<open>error\<close>, and a call that may raise returns a sum
  with the error on the left.

  A \<open>datetime\<close> is a number of microseconds. One run of a workflow reads the clock as the
  argument \<open>now\<close>. \<open>isoformat\<close>, \<open>fromisoformat\<close> and \<open>strftime("%Y-%m-%d")\<close> belong to
  the Python library and are taken as the parameter \<open>lib\<close>; \<open>fromisoformat\<close> gives \<open>None\<close>
  where the library raises \<open>ValueError\<close>.
\<close>

datatype error = KeyError | ValueError | TypeError | Raised string

record pytime =
  isoformat :: "int \<Rightarrow> string"
  fromisoformat :: "string \<Rightarrow> int option"
  strftime_ymd :: "int \<Rightarrow> string"

definition timedelta_days :: "int \<Rightarrow> int" where
  "timedelta_days n = n * 86400000000"

definition timedelta_hours :: "int \<Rightarrow> int" where
  "timedelta_hours n = n * 3600000000"

record queue_entry =
  q_url :: string
  q_title :: string
  q_body :: string
  q_source :: source_info
  q_image :: "string option"
  q_socialScore :: real
  q_added_at :: string

record posted_record =
  p_url :: string
  p_tweet_id :: "string option"
  p_date :: "string option"
  p_timestamp :: int

record stores =
  queue :: "queue_entry list"
  posted :: "posted_record list"
  cache :: "article list"

text \<open>The settings of config.py that the workflows read. The API keys come from the
  environment (\<open>None\<close> when unset); config.py sets \<open>MAX_TWEETS_PER_DAY\<close> to 60 and
  \<open>MAX_QUEUE_SIZE\<close> to 100.\<close>

record config =
  EVENT_REGISTRY_API_KEY :: "string option"
  GEMINI_API_KEY :: "string option"
  TWITTER_API_KEY :: "string option"
  TWITTER_API_SECRET :: "string option"
  TWITTER_ACCESS_TOKEN :: "string option"
  TWITTER_ACCESS_SECRET :: "string option"
  UNSPLASH_ACCESS_KEY :: "string option"
  GITHUB_TOKEN :: "string option"
  GITHUB_REPO :: string
  MAX_TWEETS_PER_DAY :: int
  MAX_QUEUE_SIZE :: int

definition get_posted_articles_today :: "pytime \<Rightarrow> int \<Rightarrow> posted_record list \<Rightarrow> string list" where
  "get_posted_articles_today lib now posted_list =
     map p_url (filter (\<lambda>p. prefix (strftime_ymd lib now) (get_str (p_date p))) posted_list)"

text \<open>The comprehension of \<open>add_posted_article\<close> that keeps the last 30 days: \<open>p['date']\<close>
  raises \<open>KeyError\<close> on a record without a date, \<open>fromisoformat\<close> raises on a malformed
  one, and the first record that raises ends the comprehension.\<close>

fun keep_recent :: "pytime \<Rightarrow> int \<Rightarrow> posted_record list \<Rightarrow> error + posted_record list" where
  "keep_recent lib cutoff [] = Inr []"
| "keep_recent lib cutoff (p # ps) =
     (case p_date p of
        None \<Rightarrow> Inl KeyError
      | Some d \<Rightarrow>
          (case fromisoformat lib d of
             None \<Rightarrow> Inl ValueError
           | Some t \<Rightarrow>
               (case keep_recent lib cutoff ps of
                  Inl e \<Rightarrow> Inl e
                | Inr rest \<Rightarrow> Inr (if t > cutoff then p # rest else rest))))"

text \<open>\<open>add_posted_article\<close> returns the list it saves, or the exception raised before the
  save.\<close>

definition add_posted_article ::
  "pytime \<Rightarrow> int \<Rightarrow> string \<Rightarrow> string option \<Rightarrow> posted_record list \<Rightarrow> error + posted_record list" where
  "add_posted_article lib now url tweet_id posted_list =
     keep_recent lib (now - timedelta_days 30)
       (posted_list @
          [\<lparr>p_url = url, p_tweet_id = tweet_id, p_date = Some (isoformat lib now),
            p_timestamp = now\<rparr>])"


section \<open>Workflow 1: monitor (main.py)\<close>

text \<open>
  The news provider is the boundary of the workflow:
  \<open>fetch_bitcoin_mining_articles env k\<close> is the outcome of its \<open>k\<close>-th call.
\<close>

record monitor_env =
  fetch_bitcoin_mining_articles :: "nat \<Rightarrow> fetch_result"

text \<open>
  A call with keyword arguments binds every keyword to a parameter of the function; a
  keyword that names no parameter raises \<open>TypeError\<close> before the body runs.
  \<open>filter_articles_parameters\<close> are the parameters of \<open>bot_lib.filter_articles\<close>
  (bot\_lib.py 275-281).
\<close>

definition filter_articles_parameters :: "string list" where
  "filter_articles_parameters =
     [''articles'', ''blacklisted_sources'', ''blacklisted_keywords'', ''min_social_score'',
      ''min_sentiment'']"

definition unexpected_keywords :: "string list \<Rightarrow> string list \<Rightarrow> string list" where
  "unexpected_keywords parameters keywords = filter (\<lambda>k. k \<notin> set parameters) keywords"

text \<open>The call of main.py 158-164, with the keywords \<open>articles\<close>,
  \<open>blacklisted_sources\<close>, \<open>blacklisted_keywords\<close>, \<open>min_social_score\<close> and \<open>min_length\<close>;
  \<open>min_sentiment\<close> keeps its default.\<close>

definition filter_call :: "article list \<Rightarrow> error + article list" where
  "filter_call articles =
     (if unexpected_keywords filter_articles_parameters
           [''articles'', ''blacklisted_sources'', ''blacklisted_keywords'',
            ''min_social_score'', ''min_length''] \<noteq> []
      then Inl TypeError
      else Inr (filter_articles articles BLACKLISTED_SOURCES BLACKLISTED_KEYWORDS
                  MIN_SOCIAL_SCORE default_min_sentiment))"

definition empty_source :: source_info where
  "empty_source = \<lparr>s_uri = None, s_title = None\<rparr>"

text \<open>The dictionary appended to the queue; \<open>article['url']\<close> and \<open>article['title']\<close> raise
  \<open>KeyError\<close> on a missing key.\<close>

definition make_entry :: "pytime \<Rightarrow> int \<Rightarrow> article \<Rightarrow> error + queue_entry" where
  "make_entry lib now a =
     (case a_url a of
        None \<Rightarrow> Inl KeyError
      | Some u \<Rightarrow>
          (case a_title a of
             None \<Rightarrow> Inl KeyError
           | Some t \<Rightarrow>
               Inr \<lparr>q_url = u, q_title = t, q_body = take 500 (get_str (a_body a)),
                    q_source = (case a_source a of None \<Rightarrow> empty_source | Some s \<Rightarrow> s),
                    q_image = a_image a, q_socialScore = get_num (a_socialScore a),
                    q_added_at = isoformat lib now\<rparr>))"

text \<open>The loop over \<open>unique_articles\<close>; \<open>queue_urls\<close> is computed once, before the loop.\<close>

fun push_new ::
  "pytime \<Rightarrow> int \<Rightarrow> string set \<Rightarrow> article list \<Rightarrow> queue_entry list \<Rightarrow> error + queue_entry list" where
  "push_new lib now queue_urls [] q = Inr q"
| "push_new lib now queue_urls (a # as) q =
     (if (case a_url a of None \<Rightarrow> True | Some u \<Rightarrow> u \<notin> queue_urls)
      then (case make_entry lib now a of
              Inl e \<Rightarrow> Inl e
            | Inr entry \<Rightarrow> push_new lib now queue_urls as (q @ [entry]))
      else push_new lib now queue_urls as q)"

text \<open>The slice \<open>xs[i:]\<close> of Python: a negative \<open>i\<close> counts from the end, and \<open>xs[-0:]\<close> is
  \<open>xs[0:]\<close>, the whole list.\<close>

definition py_slice_from :: "int \<Rightarrow> 'a list \<Rightarrow> 'a list" where
  "py_slice_from i xs =
     (if i < 0 then drop (nat (int (length xs) + i)) xs else drop (nat i) xs)"

definition trim_queue :: "int \<Rightarrow> queue_entry list \<Rightarrow> queue_entry list" where
  "trim_queue max_queue_size q =
     (if int (length q) > max_queue_size then py_slice_from (- max_queue_size) q else q)"

text \<open>The comprehension that keeps the last 24 hours of the cache; an article without a
  \<open>date\<close> is given the current time.\<close>

fun prune_cache :: "pytime \<Rightarrow> int \<Rightarrow> int \<Rightarrow> article list \<Rightarrow> error + article list" where
  "prune_cache lib now cutoff [] = Inr []"
| "prune_cache lib now cutoff (a # as) =
     (case fromisoformat lib (case a_date a of None \<Rightarrow> isoformat lib now | Some d \<Rightarrow> d) of
        None \<Rightarrow> Inl ValueError
      | Some t \<Rightarrow>
          (case prune_cache lib now cutoff as of
             Inl e \<Rightarrow> Inl e
           | Inr rest \<Rightarrow> Inr (if t > cutoff then a # rest else rest)))"

text \<open>Lines 176 to 220 of \<open>workflow_monitor\<close>: queue update, trim and save, then cache
  update and save. The result is the exit status and the stores as saved; an exception
  after the queue is saved leaves the queue written and the cache as it was.\<close>

definition monitor_stores :: "config \<Rightarrow> pytime \<Rightarrow> int \<Rightarrow> article list \<Rightarrow> stores \<Rightarrow> int \<times> stores" where
  "monitor_stores cfg lib now unique_articles st =
     (case push_new lib now (set (map q_url (queue st))) unique_articles (queue st) of
        Inl e \<Rightarrow> (1, st)
      | Inr q1 \<Rightarrow>
          (let st1 = st\<lparr>queue := trim_queue (MAX_QUEUE_SIZE cfg) q1\<rparr> in
           case prune_cache lib now (now - timedelta_hours 24) (cache st @ unique_articles) of
             Inl e \<Rightarrow> (1, st1)
           | Inr cache1 \<Rightarrow> (0, st1\<lparr>cache := cache1\<rparr>)))"

definition workflow_monitor :: "config \<Rightarrow> pytime \<Rightarrow> int \<Rightarrow> monitor_env \<Rightarrow> stores \<Rightarrow> int \<times> stores" where
  "workflow_monitor cfg lib now env st =
     (if \<not> truthy (EVENT_REGISTRY_API_KEY cfg) then (1, st)
      else case fst (fetch_articles_with_retry (fetch_bitcoin_mining_articles env) 3) of
             Inl e \<Rightarrow> (1, st)
           | Inr articles \<Rightarrow>
               if articles = [] then (0, st)
               else (case filter_call articles of
                       Inl e \<Rightarrow> (1, st)
                     | Inr filtered_articles \<Rightarrow>
                         if filtered_articles = [] then (0, st)
                         else monitor_stores cfg lib now
                                (remove_duplicate_articles filtered_articles) st))"


section \<open>Workflow 2: post (main.py)\<close>

text \<open>
  The collaborators of the post workflow: \<open>generate env title body\<close> is the outcome of
  \<open>generate_social_media_content\<close>, \<open>fetch_images env\<close> that of the image step, and
  \<open>post_tweet env text url image_path\<close> that of \<open>post_to_twitter\<close>.
\<close>

record post_env =
  generate :: "string \<Rightarrow> string \<Rightarrow> error + string option"
  fetch_images :: "error + string list"
  post_tweet :: "string \<Rightarrow> string \<Rightarrow> string option \<Rightarrow> error + string option"

definition required_keys :: "config \<Rightarrow> string option list" where
  "required_keys cfg =
     [GEMINI_API_KEY cfg, TWITTER_API_KEY cfg, TWITTER_API_SECRET cfg,
      TWITTER_ACCESS_TOKEN cfg, TWITTER_ACCESS_SECRET cfg]"

definition missing_keys :: "config \<Rightarrow> string option list" where
  "missing_keys cfg = filter (\<lambda>k. \<not> truthy k) (required_keys cfg)"

text \<open>The image step is best effort: its exceptions are caught inside the workflow.\<close>

definition image_path :: "config \<Rightarrow> post_env \<Rightarrow> queue_entry \<Rightarrow> string option" where
  "image_path cfg env article =
     (if truthy (UNSPLASH_ACCESS_KEY cfg) \<and> truthy (q_image article)
      then (case fetch_images env of
              Inl e \<Rightarrow> None
            | Inr image_paths \<Rightarrow> (case image_paths of [] \<Rightarrow> None | p # _ \<Rightarrow> Some p))
      else None)"

text \<open>The \<open>try\<close> block of \<open>workflow_post\<close>, entered with the head of the queue popped:
  \<open>Inl\<close> when it raises, otherwise the exit status and the stores as saved.\<close>

definition post_try ::
  "config \<Rightarrow> pytime \<Rightarrow> int \<Rightarrow> post_env \<Rightarrow> queue_entry \<Rightarrow> queue_entry list \<Rightarrow> stores
     \<Rightarrow> error + int \<times> stores" where
  "post_try cfg lib now env article rest st =
     (case generate env (q_title article) (q_body article) of
        Inl e \<Rightarrow> Inl e
      | Inr tweet_text \<Rightarrow>
          if \<not> truthy tweet_text then Inr (1, st)
          else (case post_tweet env (get_str tweet_text) (q_url article)
                       (image_path cfg env article) of
                  Inl e \<Rightarrow> Inl e
                | Inr tweet_id \<Rightarrow>
                    if truthy tweet_id
                    then (case add_posted_article lib now (q_url article) tweet_id (posted st) of
                            Inl e \<Rightarrow> Inl e
                          | Inr posted1 \<Rightarrow> Inr (0, st\<lparr>posted := posted1, queue := rest\<rparr>))
                    else Inr (1, st\<lparr>queue := article # rest\<rparr>)))"

definition workflow_post :: "config \<Rightarrow> pytime \<Rightarrow> int \<Rightarrow> post_env \<Rightarrow> stores \<Rightarrow> int \<times> stores" where
  "workflow_post cfg lib now env st =
     (if missing_keys cfg \<noteq> [] then (1, st)
      else if int (length (get_posted_articles_today lib now (posted st))) \<ge> MAX_TWEETS_PER_DAY cfg
      then (0, st)
      else (case queue st of
              [] \<Rightarrow> (0, st)
            | article # rest \<Rightarrow>
                (case post_try cfg lib now env article rest st of
                   Inl e \<Rightarrow> (1, st\<lparr>queue := article # rest\<rparr>)
                 | Inr result \<Rightarrow> result)))"

text \<open>The post step fails: content generation raises or returns nothing, posting raises,
  or the post result is falsy.\<close>

definition post_step_fails :: "config \<Rightarrow> post_env \<Rightarrow> queue_entry \<Rightarrow> bool" where
  "post_step_fails cfg env article =
     (case generate env (q_title article) (q_body article) of
        Inl e \<Rightarrow> True
      | Inr tweet_text \<Rightarrow>
          \<not> truthy tweet_text \<or>
          (case post_tweet env (get_str tweet_text) (q_url article) (image_path cfg env article) of
             Inl e \<Rightarrow> True
           | Inr tweet_id \<Rightarrow> \<not> truthy tweet_id))"


section \<open>Workflow 3: daily brief (main.py)\<close>

record http_response =
  status_code :: int
  html_url :: "string option"

text \<open>\<open>generate_brief env articles_text\<close> is the outcome of the generation call on the
  prompt built from \<open>articles_text\<close>, \<open>create_issue env body\<close> that of \<open>requests.post\<close>;
  \<open>html_url\<close> is \<open>None\<close> when \<open>response.json()['html_url']\<close> raises.\<close>

record brief_env =
  generate_brief :: "string \<Rightarrow> error + string"
  create_issue :: "string \<Rightarrow> error + http_response"

definition format_article :: "article \<Rightarrow> error + string" where
  "format_article a =
     (case a_title a of
        None \<Rightarrow> Inl KeyError
      | Some t \<Rightarrow>
          (case a_url a of
             None \<Rightarrow> Inl KeyError
           | Some u \<Rightarrow>
               Inr (''- **'' @ t @ ''**'' @ [CHR 0x0A] @ ''  Source: '' @
                    (case a_source a of
                       None \<Rightarrow> ''Unknown''
                     | Some s \<Rightarrow> (case s_title s of None \<Rightarrow> ''Unknown'' | Some n \<Rightarrow> n)) @
                    [CHR 0x0A] @ ''  URL: '' @ u)))"

fun format_articles :: "article list \<Rightarrow> error + string list" where
  "format_articles [] = Inr []"
| "format_articles (a # as) =
     (case format_article a of
        Inl e \<Rightarrow> Inl e
      | Inr line \<Rightarrow>
          (case format_articles as of Inl e \<Rightarrow> Inl e | Inr ls \<Rightarrow> Inr (line # ls)))"

fun join :: "string \<Rightarrow> string list \<Rightarrow> string" where
  "join sep [] = []"
| "join sep [x] = x"
| "join sep (x # y # ys) = x @ sep @ join sep (y # ys)"

text \<open>\<open>articles_text\<close>: the first 50 articles of the cache, formatted and joined by blank
  lines.\<close>

definition articles_text :: "stores \<Rightarrow> error + string" where
  "articles_text st =
     (case format_articles (take 50 (cache st)) of
        Inl e \<Rightarrow> Inl e
      | Inr ls \<Rightarrow> Inr (join [CHR 0x0A, CHR 0x0A] ls))"

text \<open>\<open>owner, repo = config.GITHUB_REPO.split('/')\<close> raises \<open>ValueError\<close> unless the name has
  exactly one slash.\<close>

definition repo_splits :: "config \<Rightarrow> bool" where
  "repo_splits cfg \<longleftrightarrow> length (filter (\<lambda>c. c = CHR ''/'') (GITHUB_REPO cfg)) = 1"

text \<open>The \<open>try\<close> block of \<open>workflow_daily_brief\<close>: \<open>Inl\<close> when it raises, otherwise the exit
  status and the stores as saved.\<close>

definition brief_try :: "config \<Rightarrow> brief_env \<Rightarrow> stores \<Rightarrow> error + int \<times> stores" where
  "brief_try cfg env st =
     (case articles_text st of
        Inl e \<Rightarrow> Inl e
      | Inr text \<Rightarrow>
          (case generate_brief env text of
             Inl e \<Rightarrow> Inl e
           | Inr brief_content \<Rightarrow>
               if \<not> repo_splits cfg then Inl ValueError
               else (case create_issue env brief_content of
                       Inl e \<Rightarrow> Inl e
                     | Inr response \<Rightarrow>
                         if status_code response = 201
                         then (case html_url response of
                                 None \<Rightarrow> Inl KeyError
                               | Some u \<Rightarrow> Inr (0, st\<lparr>cache := []\<rparr>))
                         else Inr (1, st))))"

text \<open>The drain step: the cache is read, not written.\<close>

definition drain :: "stores \<Rightarrow> article list" where
  "drain st = cache st"

definition workflow_daily_brief :: "config \<Rightarrow> brief_env \<Rightarrow> stores \<Rightarrow> int \<times> stores" where
  "workflow_daily_brief cfg env st =
     (if \<not> truthy (GEMINI_API_KEY cfg) then (1, st)
      else if \<not> truthy (GITHUB_TOKEN cfg) then (1, st)
      else if drain st = [] then (0, st)
      else (case brief_try cfg env st of Inl e \<Rightarrow> (1, st) | Inr result \<Rightarrow> result))"


section \<open>Example values\<close>

text \<open>A library that knows two instants, the epoch and noon of 15 January 2024, and a
  configuration with every key set, a daily maximum of 60 and a queue bound of 3.\<close>

definition noon :: int where
  "noon = 1705320000000000"

definition example_lib :: pytime where
  "example_lib =
     \<lparr>isoformat = (\<lambda>t. if t = 0 then ''1970-01-01T00:00:00'' else ''2024-01-15T12:00:00''),
      fromisoformat = (\<lambda>s. if s = ''1970-01-01T00:00:00'' then Some 0
                           else if s = ''2024-01-15T12:00:00'' then Some noon else None),
      strftime_ymd = (\<lambda>t. if t = 0 then ''1970-01-01'' else ''2024-01-15'')\<rparr>"

definition example_config :: config where
  "example_config =
     \<lparr>EVENT_REGISTRY_API_KEY = Some ''er-key'', GEMINI_API_KEY = Some ''gemini-key'',
      TWITTER_API_KEY = Some ''tw-key'', TWITTER_API_SECRET = Some ''tw-secret'',
      TWITTER_ACCESS_TOKEN = Some ''tw-token'', TWITTER_ACCESS_SECRET = Some ''tw-access'',
      UNSPLASH_ACCESS_KEY = None, GITHUB_TOKEN = Some ''gh-token'',
      GITHUB_REPO = ''SHA256-news/scaling-engine'',
      MAX_TWEETS_PER_DAY = 60, MAX_QUEUE_SIZE = 3\<rparr>"

definition example_entry :: "string \<Rightarrow> queue_entry" where
  "example_entry u =
     \<lparr>q_url = u, q_title = ''Difficulty adjustment'', q_body = ''The network difficulty rose.'',
      q_source = empty_source, q_image = None, q_socialScore = 7,
      q_added_at = ''2024-01-15T12:00:00''\<rparr>"

definition example_article :: "string \<Rightarrow> string option \<Rightarrow> article" where
  "example_article u d =
     \<lparr>a_title = Some ''Difficulty adjustment'', a_url = Some u,
      a_body = Some ''The network difficulty rose.'', a_source = None, a_image = None,
      a_socialScore = Some 7, a_sentiment = Some 0, a_date = d\<rparr>"

definition example_record :: "string \<Rightarrow> string \<Rightarrow> posted_record" where
  "example_record u d = \<lparr>p_url = u, p_tweet_id = Some ''1'', p_date = Some d, p_timestamp = 0\<rparr>"

text \<open>The queue \<open>[a, b]\<close> with an empty ledger, and a collaborator whose post returns
  nothing.\<close>

definition queue_ab :: stores where
  "queue_ab = \<lparr>queue = [example_entry ''a'', example_entry ''b''], posted = [], cache = []\<rparr>"

definition failing_post :: post_env where
  "failing_post =
     \<lparr>generate = (\<lambda>title body. Inr (Some ''Difficulty rose #Bitcoin'')),
      fetch_images = Inr [],
      post_tweet = (\<lambda>text url image. Inr None)\<rparr>"

text \<open>A configuration with a daily maximum of 1 and a ledger that holds one record of
  today.\<close>

definition one_per_day :: config where
  "one_per_day = example_config\<lparr>MAX_TWEETS_PER_DAY := 1\<rparr>"

definition posted_today :: stores where
  "posted_today =
     \<lparr>queue = [example_entry ''a'', example_entry ''b''],
      posted = [example_record ''c'' ''2024-01-15T12:00:00''], cache = []\<rparr>"

text \<open>A ledger and a cache that each hold one entry dated at the epoch.\<close>

definition old_stores :: stores where
  "old_stores =
     \<lparr>queue = [], posted = [example_record ''c'' ''1970-01-01T00:00:00''],
      cache = [example_article ''c'' (Some ''1970-01-01T00:00:00'')]\<rparr>"

text \<open>A cache of one article, a sink that answers 500, a sink that answers 201, and a
  generation that raises in front of a sink that answers 201.\<close>

definition cached_one :: stores where
  "cached_one =
     \<lparr>queue = [], posted = [], cache = [example_article ''a'' (Some ''2024-01-15T12:00:00'')]\<rparr>"

definition failing_sink :: brief_env where
  "failing_sink =
     \<lparr>generate_brief = (\<lambda>text. Inr ''Daily brief''),
      create_issue = (\<lambda>body. Inr \<lparr>status_code = 500, html_url = None\<rparr>)\<rparr>"

definition accepting_sink :: brief_env where
  "accepting_sink =
     \<lparr>generate_brief = (\<lambda>text. Inr ''Daily brief''),
      create_issue = (\<lambda>body. Inr \<lparr>status_code = 201, html_url = Some ''https://github.com/i/1''\<rparr>)\<rparr>"


definition failing_generation :: brief_env where
  "failing_generation =
     \<lparr>generate_brief = (\<lambda>text. Inl (Raised ''generation failed'')),
      create_issue = (\<lambda>body. Inr \<lparr>status_code = 201, html_url = Some ''https://github.com/i/1''\<rparr>)\<rparr>"

text \<open>The queue \<open>[x, y, z]\<close>, full at the bound of 3.\<close>

definition queue_xyz :: stores where
  "queue_xyz =
     \<lparr>queue = [example_entry ''x'', example_entry ''y'', example_entry ''z''], posted = [],
      cache = []\<rparr>"

text \<open>An article whose body has 600 characters.\<close>

definition long_article :: article where
  "long_article =
     \<lparr>a_title = Some ''Hashrate record'', a_url = Some ''w'',
      a_body = Some (replicate 600 (CHR ''m'')), a_source = None, a_image = None,
      a_socialScore = Some 7, a_sentiment = Some 0, a_date = Some ''2024-01-15T12:00:00''\<rparr>"




section \<open>Runs of the bot (main.py)\<close>

text \<open>
  \<open>main\<close> runs one workflow per invocation and the stores persist between invocations.
  A run is a sequence of invocations, each with its clock reading and the outcomes of
  its collaborators; \<open>invoke\<close> gives the stores that the invocation leaves on disk.
\<close>

datatype invocation = Monitor int monitor_env | Post int post_env

fun invoke :: "config \<Rightarrow> pytime \<Rightarrow> stores \<Rightarrow> invocation \<Rightarrow> stores" where
  "invoke cfg lib st (Monitor now env) = snd (workflow_monitor cfg lib now env st)"
| "invoke cfg lib st (Post now env) = snd (workflow_post cfg lib now env st)"

definition run :: "config \<Rightarrow> pytime \<Rightarrow> invocation list \<Rightarrow> stores \<Rightarrow> stores" where
  "run cfg lib invocations st = foldl (invoke cfg lib) st invocations"



section \<open>Properties of the filters\<close>

lemma py_in_iff: "py_in sub s \<longleftrightarrow> (\<exists>p q. s = p @ sub @ q)"
proof (induction s)
  case Nil
  then show ?case by auto
next
  case (Cons c cs)
  show ?case
  proof
    assume "py_in sub (c # cs)"
    then consider "prefix sub (c # cs)" | "py_in sub cs" by auto
    then show "\<exists>p q. c # cs = p @ sub @ q"
    proof cases
      case 1
      then obtain q where "c # cs = sub @ q" by (auto simp: prefix_def)
      then have "c # cs = [] @ sub @ q" by simp
      then show ?thesis by blast
    next
      case 2
      with Cons.IH obtain p q where "cs = p @ sub @ q" by blast
      then have "c # cs = (c # p) @ sub @ q" by simp
      then show ?thesis by blast
    qed
  next
    assume "\<exists>p q. c # cs = p @ sub @ q"
    then obtain p q where pq: "c # cs = p @ sub @ q" by blast
    show "py_in sub (c # cs)"
    proof (cases p)
      case Nil
      with pq have "prefix sub (c # cs)" by (simp add: prefix_def)
      then show ?thesis by simp
    next
      case (Cons d p')
      with pq have "cs = p' @ sub @ q" by simp
      with Cons.IH have "py_in sub cs" by blast
      then show ?thesis by simp
    qed
  qed
qed

lemma count_keywords_length:
  "count_keywords ks c = int (length (filter (\<lambda>k. py_in k c) ks))"
  by (induction ks) auto

lemma distinct_MINING_KEYWORDS: "distinct MINING_KEYWORDS"
  by code_simp

text \<open>
  Claim C9, as the code has it. \<open>_is_mining_relevant\<close> passes an article exactly when the
  number of keywords of \<open>MINING_KEYWORDS\<close> that occur in the lower-cased title, one space,
  and the lower-cased body is at least \<open>min_mining_terms\<close>: every keyword counts once,
  however often it occurs, and title and body are joined by a space.
\<close>

theorem relevance_counts_keywords_present:
  "is_mining_relevant min_mining_terms a \<longleftrightarrow>
     min_mining_terms \<le> int (card {k \<in> set MINING_KEYWORDS.
        py_in k (lower (get_str (a_title a)) @ '' '' @ lower (get_str (a_body a)))})"
  by (simp add: is_mining_relevant_def content_of_def count_keywords_length
        distinct_length_filter [OF distinct_MINING_KEYWORDS] Int_def conj_commute)

text \<open>
  Claim C9 as stated fails: with title \<open>mining\<close>, body \<open>farm\<close> and a minimum of 2, the
  terms occur once in \<open>title + body\<close> (\<open>miningfarm\<close> holds \<open>mining\<close> only), yet the code
  passes the article, since \<open>mining farm\<close> holds both \<open>mining\<close> and \<open>mining farm\<close>.
\<close>

theorem relevance_occurrence_count_counterexample:
  "is_mining_relevant 2 mining_farm \<and> \<not> spec_relevance_passes 2 mining_farm"
  by code_simp

text \<open>
  Claim C2 at a failing input. \<open>filter_articles\<close> has no gate on the length of the body:
  an article with a body of five characters, which passes every other gate, is returned
  by \<open>filter_articles\<close> followed by \<open>remove_duplicate_articles\<close>, although
  \<open>MIN_ARTICLE_LENGTH\<close> is 200.
\<close>

theorem short_body_passes_ingestion_filter:
  "remove_duplicate_articles
     (filter_articles [short_article] BLACKLISTED_SOURCES BLACKLISTED_KEYWORDS
        MIN_SOCIAL_SCORE default_min_sentiment) = [short_article]
   \<and> length (get_str (a_body short_article)) < MIN_ARTICLE_LENGTH"
  by code_simp


section \<open>Properties of the retry loop\<close>

lemma retry_loop_step:
  "retry_loop fetch m a (Suc n) =
     (if retryable_at fetch a \<and> int a < m - 1
      then (case retry_loop fetch m (Suc a) n of
              (r, waits, calls) \<Rightarrow> (r, backoff fetch a # waits, Suc calls))
      else (fetch a, [], 1))"
  by (auto simp: retryable_at_def backoff_def rate_limited_at_def Let_def
           split: sum.splits prod.splits)

lemma retry_loop_zero: "retry_loop fetch m a 0 = (Inr [], [], 0)"
  by simp

lemma retry_loop_shape:
  assumes "int (a + n) = m" and "0 < n" and "retry_loop fetch m a n = (r, waits, calls)"
  shows "1 \<le> calls \<and> calls \<le> n \<and> length waits = calls - 1 \<and> r = fetch (a + (calls - 1))
         \<and> (\<forall>i < calls - 1. retryable_at fetch (a + i) \<and> waits ! i = backoff fetch (a + i))
         \<and> (\<not> retryable_at fetch (a + (calls - 1)) \<or> calls = n)"
  using assms
proof (induction n arbitrary: a r waits calls)
  case 0
  then show ?case by simp
next
  case (Suc n)
  show ?case
  proof (cases "retryable_at fetch a \<and> int a < m - 1")
    case False
    with Suc.prems(3) have eq: "r = fetch a" "waits = []" "calls = 1"
      by (simp_all only: retry_loop_step if_False prod.inject)
    from False Suc.prems(1) have "\<not> retryable_at fetch a \<or> n = 0" by auto
    with eq show ?thesis by auto
  next
    case True
    then have npos: "0 < n" using Suc.prems(1) by auto
    obtain r' ws' c' where rec: "retry_loop fetch m (Suc a) n = (r', ws', c')"
      by (cases "retry_loop fetch m (Suc a) n") auto
    from Suc.prems(3) True rec have eq: "r = r'" "waits = backoff fetch a # ws'" "calls = Suc c'"
      by (simp_all add: retry_loop_step del: retry_loop.simps)
    have "int (Suc a + n) = m" using Suc.prems(1) by simp
    from Suc.IH [OF this npos rec]
    have ih: "1 \<le> c'" "c' \<le> n" "length ws' = c' - 1" "r' = fetch (Suc a + (c' - 1))"
      "\<forall>i < c' - 1. retryable_at fetch (Suc a + i) \<and> ws' ! i = backoff fetch (Suc a + i)"
      "\<not> retryable_at fetch (Suc a + (c' - 1)) \<or> c' = n"
      by auto
    have idx: "Suc a + (c' - 1) = a + (calls - 1)" using ih(1) eq(3) by simp
    have all: "\<forall>i < calls - 1. retryable_at fetch (a + i) \<and> waits ! i = backoff fetch (a + i)"
    proof (intro allI impI)
      fix i assume i: "i < calls - 1"
      show "retryable_at fetch (a + i) \<and> waits ! i = backoff fetch (a + i)"
      proof (cases i)
        case 0
        with True eq show ?thesis by simp
      next
        case (Suc j)
        with i eq(3) have "j < c' - 1" by simp
        with ih(5) have "retryable_at fetch (Suc a + j) \<and> ws' ! j = backoff fetch (Suc a + j)"
          by blast
        with Suc eq(2) show ?thesis by simp
      qed
    qed
    from ih eq idx all show ?thesis by auto
  qed
qed

text \<open>
  Claim C7. A run of \<open>fetch_articles_with_retry\<close> makes at most \<open>max_retries\<close> calls. When
  \<open>max_retries\<close> is positive it makes at least one, it returns or raises what its last
  call returned or raised, every earlier call ended in an error that is not an
  authentication error and was followed by a wait of \<open>10 * 2 ^ attempt\<close> seconds when the
  error was a rate limit and of \<open>5 * 2 ^ attempt\<close> seconds otherwise, a call that ends in an
  authentication error is the last one and its error is the one raised, and when every
  attempt ends in an error that is not an authentication error, all \<open>max_retries\<close> calls
  are made and the error of the last one is raised.
\<close>

theorem fetch_with_retry_classification:
  assumes "fetch_articles_with_retry fetch max_retries = (r, waits, calls)"
  shows "calls \<le> nat max_retries
    \<and> (0 < max_retries \<longrightarrow>
         1 \<le> calls \<and> length waits = calls - 1 \<and> r = fetch (calls - 1)
       \<and> (\<forall>i < calls - 1. retryable_at fetch i \<and>
             waits ! i = (if rate_limited_at fetch i then 10 * 2 ^ i else 5 * 2 ^ i))
       \<and> (\<forall>k < calls. fatal_at fetch k \<longrightarrow> calls = Suc k \<and> r = fetch k)
       \<and> ((\<forall>i < nat max_retries. retryable_at fetch i) \<longrightarrow>
             calls = nat max_retries \<and> r = fetch (nat max_retries - 1)))"
proof (cases "0 < max_retries")
  case False
  with assms show ?thesis by (simp add: fetch_articles_with_retry_def)
next
  case True
  then have n: "int (0 + nat max_retries) = max_retries" "0 < nat max_retries" by simp_all
  from assms have run: "retry_loop fetch max_retries 0 (nat max_retries) = (r, waits, calls)"
    by (simp add: fetch_articles_with_retry_def)
  from retry_loop_shape [OF n run]
  have sh: "1 \<le> calls" "calls \<le> nat max_retries" "length waits = calls - 1"
    "r = fetch (calls - 1)"
    "\<forall>i < calls - 1. retryable_at fetch i \<and> waits ! i = backoff fetch i"
    "\<not> retryable_at fetch (calls - 1) \<or> calls = nat max_retries"
    by auto
  have fatal: "\<forall>k < calls. fatal_at fetch k \<longrightarrow> calls = Suc k \<and> r = fetch k"
  proof (intro allI impI)
    fix k assume k: "k < calls" and f: "fatal_at fetch k"
    have "\<not> retryable_at fetch k" using f
      by (auto simp: fatal_at_def retryable_at_def split: sum.splits)
    with sh(5) have "\<not> k < calls - 1" by blast
    with k have "calls = Suc k" by simp
    with sh(4) show "calls = Suc k \<and> r = fetch k" by simp
  qed
  have exhausted: "(\<forall>i < nat max_retries. retryable_at fetch i) \<longrightarrow>
             calls = nat max_retries \<and> r = fetch (nat max_retries - 1)"
  proof
    assume a: "\<forall>i < nat max_retries. retryable_at fetch i"
    from sh(1,2) have "calls - 1 < nat max_retries" by simp
    with a have "retryable_at fetch (calls - 1)" by blast
    with sh(6) have "calls = nat max_retries" by blast
    with sh(4) show "calls = nat max_retries \<and> r = fetch (nat max_retries - 1)" by simp
  qed
  have waits: "\<forall>i < calls - 1. retryable_at fetch i \<and>
             waits ! i = (if rate_limited_at fetch i then 10 * 2 ^ i else 5 * 2 ^ i)"
    using sh(5) unfolding backoff_def by blast
  from sh(1,2,3,4) waits fatal exhausted show ?thesis by blast
qed

lemma flaky_run: "fetch_articles_with_retry flaky_fetch 3 = (Inl ''Invalid API key'', [10, 10], 3)"
  by code_simp

lemma flaky_fatal: "fatal_at flaky_fetch 2"
  by code_simp

theorem fetch_with_retry_classification_witness:
  "fetch_articles_with_retry flaky_fetch 3 = (Inl ''Invalid API key'', [10, 10], 3)
   \<and> (3::nat) \<le> nat 3 \<and> length [10::int, 10] = 3 - 1"
proof -
  have pos: "(0::int) < 3" by simp
  from fetch_with_retry_classification [OF flaky_run] pos
  have "(3::nat) \<le> nat 3" and "length [10::int, 10] = 3 - 1" by blast+
  with flaky_run show ?thesis by blast
qed

section \<open>Properties of the post workflow\<close>

lemma keep_recent_filter_le:
  "keep_recent lib cutoff ps = Inr qs \<Longrightarrow> length (filter P qs) \<le> length (filter P ps)"
proof (induction ps arbitrary: qs)
  case Nil
  then show ?case by simp
next
  case (Cons p ps)
  from Cons.prems obtain d t rest where
    d: "p_date p = Some d" and t: "fromisoformat lib d = Some t"
    and rest: "keep_recent lib cutoff ps = Inr rest"
    and qs: "qs = (if t > cutoff then p # rest else rest)"
    by (auto split: option.splits sum.splits)
  from Cons.IH [OF rest] have "length (filter P rest) \<le> length (filter P ps)" .
  with qs show ?case by auto
qed


lemma keep_recent_fresh:
  "keep_recent lib cutoff ps = Inr qs \<Longrightarrow> p \<in> set qs \<Longrightarrow>
     \<exists>d t. p_date p = Some d \<and> fromisoformat lib d = Some t \<and> cutoff < t"
proof (induction ps arbitrary: qs)
  case Nil
  then show ?case by simp
next
  case (Cons x ps)
  from Cons.prems(1) obtain d t rest where
    d: "p_date x = Some d" and t: "fromisoformat lib d = Some t"
    and rest: "keep_recent lib cutoff ps = Inr rest"
    and qs: "qs = (if t > cutoff then x # rest else rest)"
    by (auto split: option.splits sum.splits)
  show ?case
  proof (cases "p = x \<and> t > cutoff")
    case True
    with d t show ?thesis by auto
  next
    case False
    with qs Cons.prems(2) have "p \<in> set rest" by (auto split: if_splits)
    from Cons.IH [OF rest this] show ?thesis .
  qed
qed

lemma workflow_post_cases:
  "workflow_post cfg lib now env st = (1, st) \<or> workflow_post cfg lib now env st = (0, st) \<or>
   (\<exists>article rest tweet_id posted1.
       queue st = article # rest \<and> missing_keys cfg = [] \<and>
       int (length (get_posted_articles_today lib now (posted st))) < MAX_TWEETS_PER_DAY cfg \<and>
       \<not> post_step_fails cfg env article \<and>
       add_posted_article lib now (q_url article) tweet_id (posted st) = Inr posted1 \<and>
       workflow_post cfg lib now env st = (0, st\<lparr>posted := posted1, queue := rest\<rparr>))"
proof (cases "missing_keys cfg \<noteq> [] \<or>
    int (length (get_posted_articles_today lib now (posted st))) \<ge> MAX_TWEETS_PER_DAY cfg")
  case True
  then show ?thesis by (auto simp: workflow_post_def)
next
  case False
  show ?thesis
  proof (cases "queue st")
    case Nil
    with False show ?thesis by (simp add: workflow_post_def)
  next
    case (Cons article rest)
    have same: "st\<lparr>queue := article # rest\<rparr> = st" using Cons by simp
    show ?thesis
    proof (cases "post_try cfg lib now env article rest st")
      case (Inl e)
      with False Cons same show ?thesis by (simp add: workflow_post_def)
    next
      case (Inr result)
      then consider "result = (1, st)"
        | tweet_id posted1 where "\<not> post_step_fails cfg env article"
            "add_posted_article lib now (q_url article) tweet_id (posted st) = Inr posted1"
            "result = (0, st\<lparr>posted := posted1, queue := rest\<rparr>)"
        using same
        by (auto simp: post_try_def post_step_fails_def split: sum.splits if_splits)
      then show ?thesis
      proof cases
        case 1
        with False Cons Inr show ?thesis by (simp add: workflow_post_def)
      next
        case 2
        with False Cons Inr show ?thesis by (auto simp: workflow_post_def)
      qed
    qed
  qed
qed

text \<open>
  Claim C3. When the required keys are configured, the daily limit is not reached and the
  post step fails for the entry at the head of the queue (content generation raises or
  returns nothing, posting raises, or posting returns no tweet id), \<open>workflow_post\<close> exits
  with code 1, the saved queue still has that entry at its head followed by the rest in
  order, and the ledger and the cache are unchanged.
\<close>

theorem failed_post_restores_queue:
  assumes "missing_keys cfg = []"
    and "int (length (get_posted_articles_today lib now (posted st))) < MAX_TWEETS_PER_DAY cfg"
    and "queue st = article # rest"
    and "post_step_fails cfg env article"
  shows "fst (workflow_post cfg lib now env st) = 1
       \<and> queue (snd (workflow_post cfg lib now env st)) = article # rest
       \<and> posted (snd (workflow_post cfg lib now env st)) = posted st
       \<and> cache (snd (workflow_post cfg lib now env st)) = cache st"
proof -
  have same: "st\<lparr>queue := article # rest\<rparr> = st" using assms(3) by simp
  have "post_try cfg lib now env article rest st = Inr (1, st) \<or>
        (\<exists>e. post_try cfg lib now env article rest st = Inl e)"
    using assms(4) same
    by (auto simp: post_try_def post_step_fails_def split: sum.splits if_splits)
  then have "workflow_post cfg lib now env st = (1, st)"
    using assms(1,2,3) same by (auto simp: workflow_post_def)
  with assms(3) show ?thesis by simp
qed

lemma ab_keys: "missing_keys example_config = []"
  by code_simp

lemma ab_count:
  "int (length (get_posted_articles_today example_lib noon (posted queue_ab)))
     < MAX_TWEETS_PER_DAY example_config"
  by code_simp

lemma ab_queue: "queue queue_ab = example_entry ''a'' # [example_entry ''b'']"
  by (simp add: queue_ab_def)

lemma ab_fails: "post_step_fails example_config failing_post (example_entry ''a'')"
  by code_simp

text \<open>
  The queue \<open>[a, b]\<close> with a collaborator whose post returns no tweet id: the run fails and
  leaves \<open>[a, b]\<close> and an empty ledger.
\<close>

theorem failed_post_restores_queue_witness:
  "fst (workflow_post example_config example_lib noon failing_post queue_ab) = 1
   \<and> queue (snd (workflow_post example_config example_lib noon failing_post queue_ab))
       = [example_entry ''a'', example_entry ''b'']
   \<and> posted (snd (workflow_post example_config example_lib noon failing_post queue_ab)) = []"
  using failed_post_restores_queue [OF ab_keys ab_count ab_queue ab_fails] by (simp add: queue_ab_def)

lemma count_after_add:
  assumes "add_posted_article lib now url tweet_id ps = Inr ps'"
  shows "length (get_posted_articles_today lib day ps')
           \<le> Suc (length (get_posted_articles_today lib day ps))"
proof -
  let ?P = "\<lambda>p. prefix (strftime_ymd lib day) (get_str (p_date p))"
  let ?new = "\<lparr>p_url = url, p_tweet_id = tweet_id, p_date = Some (isoformat lib now),
            p_timestamp = now\<rparr>"
  from assms have "keep_recent lib (now - timedelta_days 30) (ps @ [?new]) = Inr ps'"
    by (simp add: add_posted_article_def)
  from keep_recent_filter_le [OF this, of ?P]
  have "length (filter ?P ps') \<le> length (filter ?P (ps @ [?new]))" .
  also have "\<dots> \<le> Suc (length (filter ?P ps))" by simp
  finally show ?thesis by (simp add: get_posted_articles_today_def)
qed

text \<open>
  Claim C5. One run of \<open>workflow_post\<close> never takes the number of ledger records dated
  today above \<open>MAX_TWEETS_PER_DAY\<close> when it was not above it before; and, with the required
  keys configured, a run that starts with the count at or above the maximum changes
  nothing and exits with code 0.
\<close>

theorem daily_rate_limit:
  "(int (length (get_posted_articles_today lib now (posted st))) \<le> MAX_TWEETS_PER_DAY cfg \<longrightarrow>
      int (length (get_posted_articles_today lib now
             (posted (snd (workflow_post cfg lib now env st))))) \<le> MAX_TWEETS_PER_DAY cfg)
   \<and> (missing_keys cfg = [] \<and>
      MAX_TWEETS_PER_DAY cfg \<le> int (length (get_posted_articles_today lib now (posted st))) \<longrightarrow>
      workflow_post cfg lib now env st = (0, st))"
proof (intro conjI impI)
  assume le: "int (length (get_posted_articles_today lib now (posted st))) \<le> MAX_TWEETS_PER_DAY cfg"
  show "int (length (get_posted_articles_today lib now
             (posted (snd (workflow_post cfg lib now env st))))) \<le> MAX_TWEETS_PER_DAY cfg"
    using workflow_post_cases [of cfg lib now env st]
  proof (elim disjE exE conjE)
    assume "workflow_post cfg lib now env st = (1, st)"
    with le show ?thesis by simp
  next
    assume "workflow_post cfg lib now env st = (0, st)"
    with le show ?thesis by simp
  next
    fix article rest tweet_id posted1
    assume lt: "int (length (get_posted_articles_today lib now (posted st))) < MAX_TWEETS_PER_DAY cfg"
      and add: "add_posted_article lib now (q_url article) tweet_id (posted st) = Inr posted1"
      and wf: "workflow_post cfg lib now env st = (0, st\<lparr>posted := posted1, queue := rest\<rparr>)"
    from count_after_add [OF add, of now] lt
    have "int (length (get_posted_articles_today lib now posted1)) \<le> MAX_TWEETS_PER_DAY cfg"
      by linarith
    with wf show ?thesis by simp
  qed
next
  assume "missing_keys cfg = [] \<and>
      MAX_TWEETS_PER_DAY cfg \<le> int (length (get_posted_articles_today lib now (posted st)))"
  then show "workflow_post cfg lib now env st = (0, st)"
    by (simp add: workflow_post_def)
qed

lemma today_keys: "missing_keys one_per_day = []"
  by code_simp

lemma today_count:
  "MAX_TWEETS_PER_DAY one_per_day
     \<le> int (length (get_posted_articles_today example_lib noon (posted posted_today)))"
  by code_simp

text \<open>
  A daily maximum of 1 and a ledger with one record of today: the run exits with 0 and
  the stores are as before.
\<close>

theorem daily_rate_limit_witness:
  "missing_keys one_per_day = []
   \<and> int (length (get_posted_articles_today example_lib noon (posted posted_today))) = 1
   \<and> workflow_post one_per_day example_lib noon failing_post posted_today = (0, posted_today)"
proof -
  have c: "int (length (get_posted_articles_today example_lib noon (posted posted_today))) = 1"
    by code_simp
  from daily_rate_limit [of example_lib noon posted_today one_per_day failing_post] today_keys today_count
  have "workflow_post one_per_day example_lib noon failing_post posted_today = (0, posted_today)"
    by blast
  with today_keys c show ?thesis by blast
qed

section \<open>Properties of retention\<close>

lemma prune_cache_fresh:
  "prune_cache lib now cutoff as = Inr bs \<Longrightarrow> a \<in> set bs \<Longrightarrow> a_date a = Some d \<Longrightarrow>
     \<exists>t. fromisoformat lib d = Some t \<and> cutoff < t"
proof (induction as arbitrary: bs)
  case Nil
  then show ?case by simp
next
  case (Cons x as)
  from Cons.prems(1) obtain t rest where
    t: "fromisoformat lib (case a_date x of None \<Rightarrow> isoformat lib now | Some d \<Rightarrow> d) = Some t"
    and rest: "prune_cache lib now cutoff as = Inr rest"
    and bs: "bs = (if t > cutoff then x # rest else rest)"
    by (auto split: option.splits sum.splits)
  show ?case
  proof (cases "a = x \<and> t > cutoff")
    case True
    with t Cons.prems(3) show ?thesis by auto
  next
    case False
    with bs Cons.prems(2) have "a \<in> set rest" by (auto split: if_splits)
    from Cons.IH [OF rest this Cons.prems(3)] show ?thesis .
  qed
qed

lemma monitor_stores_saved_cache:
  "monitor_stores cfg lib now unique_articles st = (0, st') \<Longrightarrow>
     prune_cache lib now (now - timedelta_hours 24) (cache st @ unique_articles) = Inr (cache st')"
  by (auto simp: monitor_stores_def Let_def split: sum.splits)

text \<open>
  Claim C8. Every record of the ledger returned by \<open>add_posted_article\<close> has a \<open>date\<close> that
  parses to an instant later than thirty days before the call; and every article of the
  cache saved by a successful \<open>workflow_monitor\<close> that has a \<open>date\<close> has one that parses to an
  instant later than twenty-four hours before the run.
\<close>

theorem retention_pruning:
  "(add_posted_article lib now url tweet_id ps = Inr ps' \<longrightarrow>
      (\<forall>p \<in> set ps'. \<exists>d t. p_date p = Some d \<and> fromisoformat lib d = Some t
                            \<and> now - timedelta_days 30 < t))
   \<and> (monitor_stores cfg lib now unique_articles st = (0, st') \<longrightarrow>
      (\<forall>a \<in> set (cache st'). \<forall>d. a_date a = Some d \<longrightarrow>
          (\<exists>t. fromisoformat lib d = Some t \<and> now - timedelta_hours 24 < t)))"
proof (intro conjI impI ballI allI)
  fix p
  assume "add_posted_article lib now url tweet_id ps = Inr ps'" and "p \<in> set ps'"
  then show "\<exists>d t. p_date p = Some d \<and> fromisoformat lib d = Some t \<and> now - timedelta_days 30 < t"
    unfolding add_posted_article_def by (rule keep_recent_fresh)
next
  fix a d
  assume "monitor_stores cfg lib now unique_articles st = (0, st')"
    and "a \<in> set (cache st')" and "a_date a = Some d"
  then show "\<exists>t. fromisoformat lib d = Some t \<and> now - timedelta_hours 24 < t"
    using prune_cache_fresh monitor_stores_saved_cache by blast
qed

lemma old_ledger:
  "add_posted_article example_lib noon ''a'' (Some ''2'') (posted old_stores)
     = Inr [\<lparr>p_url = ''a'', p_tweet_id = Some ''2'', p_date = Some ''2024-01-15T12:00:00'',
             p_timestamp = noon\<rparr>]"
  by code_simp

lemma old_cache:
  "monitor_stores example_config example_lib noon
     [example_article ''a'' (Some ''2024-01-15T12:00:00'')] old_stores
   = (0, \<lparr>queue = [\<lparr>q_url = ''a'', q_title = ''Difficulty adjustment'',
                     q_body = ''The network difficulty rose.'', q_source = empty_source,
                     q_image = None, q_socialScore = 7, q_added_at = ''2024-01-15T12:00:00''\<rparr>],
          posted = [example_record ''c'' ''1970-01-01T00:00:00''],
          cache = [example_article ''a'' (Some ''2024-01-15T12:00:00'')]\<rparr>)"
  by code_simp

text \<open>
  A ledger and a cache that each hold one entry dated at the epoch, pruned at noon of
  15 January 2024: only the new entries remain.
\<close>

theorem retention_pruning_witness:
  "add_posted_article example_lib noon ''a'' (Some ''2'') (posted old_stores)
     = Inr [\<lparr>p_url = ''a'', p_tweet_id = Some ''2'', p_date = Some ''2024-01-15T12:00:00'',
             p_timestamp = noon\<rparr>]
   \<and> (\<exists>t. fromisoformat example_lib ''2024-01-15T12:00:00'' = Some t
          \<and> noon - timedelta_days 30 < t)
   \<and> fst (monitor_stores example_config example_lib noon
            [example_article ''a'' (Some ''2024-01-15T12:00:00'')] old_stores) = 0"
proof -
  from retention_pruning [of example_lib noon "''a''" "Some ''2''" "posted old_stores" _
             example_config "[example_article ''a'' (Some ''2024-01-15T12:00:00'')]" old_stores]
    old_ledger
  have "\<exists>d t. Some ''2024-01-15T12:00:00'' = Some d \<and> fromisoformat example_lib d = Some t
           \<and> noon - timedelta_days 30 < t"
    by fastforce
  then have "\<exists>t. fromisoformat example_lib ''2024-01-15T12:00:00'' = Some t
          \<and> noon - timedelta_days 30 < t" by blast
  with old_ledger old_cache show ?thesis by simp
qed

section \<open>Properties of the daily brief\<close>

lemma brief_try_generation_fails:
  "articles_text st = Inl e \<or> (articles_text st = Inr listing \<and> generate_brief env listing = Inl e)
     \<Longrightarrow> brief_try cfg env st = Inl e"
  by (auto simp: brief_try_def)

lemma brief_try_delivery_fails:
  assumes "articles_text st = Inr listing" and "generate_brief env listing = Inr brief_content"
    and "\<not> repo_splits cfg \<or> create_issue env brief_content = Inl e \<or>
         (create_issue env brief_content = Inr response \<and>
            (status_code response \<noteq> 201 \<or> html_url response = None))"
  shows "(\<exists>e. brief_try cfg env st = Inl e) \<or> brief_try cfg env st = Inr (1, st)"
  using assms by (cases "status_code response = 201") (auto simp: brief_try_def)

lemma brief_try_delivered:
  assumes "articles_text st = Inr listing" and "generate_brief env listing = Inr brief_content"
    and "repo_splits cfg" and "create_issue env brief_content = Inr response"
    and "status_code response = 201" and "html_url response = Some u"
  shows "brief_try cfg env st = Inr (0, st\<lparr>cache := []\<rparr>)"
  using assms by (simp add: brief_try_def)

lemma brief_try_cases:
  "brief_try cfg env st = Inr r \<Longrightarrow>
     r = (1, st) \<or>
     (r = (0, st\<lparr>cache := []\<rparr>) \<and>
      (\<exists>listing brief_content response u.
          articles_text st = Inr listing \<and> generate_brief env listing = Inr brief_content \<and>
          create_issue env brief_content = Inr response \<and> status_code response = 201 \<and>
          html_url response = Some u))"
  by (auto simp: brief_try_def split: sum.splits if_splits option.splits)

lemma workflow_daily_brief_failure:
  assumes "(\<exists>e. brief_try cfg env st = Inl e) \<or> brief_try cfg env st = Inr (1, st)"
  shows "snd (workflow_daily_brief cfg env st) = st \<and>
         (cache st \<noteq> [] \<longrightarrow> fst (workflow_daily_brief cfg env st) = 1)"
  using assms by (auto simp: workflow_daily_brief_def drain_def)

lemma workflow_daily_brief_cases:
  "workflow_daily_brief cfg env st = (1, st) \<or>
   (workflow_daily_brief cfg env st = (0, st) \<and> cache st = []) \<or>
   (workflow_daily_brief cfg env st = (0, st\<lparr>cache := []\<rparr>) \<and>
      (\<exists>listing brief_content response u.
          articles_text st = Inr listing \<and> generate_brief env listing = Inr brief_content \<and>
          create_issue env brief_content = Inr response \<and> status_code response = 201 \<and>
          html_url response = Some u))"
proof (cases "\<not> truthy (GEMINI_API_KEY cfg) \<or> \<not> truthy (GITHUB_TOKEN cfg)")
  case True
  then show ?thesis by (auto simp: workflow_daily_brief_def)
next
  case keys: False
  show ?thesis
  proof (cases "drain st = []")
    case True
    with keys show ?thesis by (simp add: workflow_daily_brief_def drain_def)
  next
    case False
    show ?thesis
    proof (cases "brief_try cfg env st")
      case (Inl e)
      with keys False show ?thesis by (simp add: workflow_daily_brief_def)
    next
      case (Inr r)
      from brief_try_cases [OF Inr] keys False Inr show ?thesis
        by (auto simp: workflow_daily_brief_def)
    qed
  qed
qed

text \<open>
  Claim C6. In \<open>workflow_daily_brief\<close>:
  when the digest cannot be generated (formatting the drained articles raises, or the
  generation call raises), the stores are left as they were and a run on a non-empty
  cache exits with 1;
  when the digest is generated but not delivered (the repository name does not split,
  the request raises, the answer is not 201, or the answer carries no issue url), the
  stores are left as they were and a run on a non-empty cache exits with 1;
  when the keys are configured, the cache is non-empty, the digest is generated and the
  issue that carries it is answered with 201 and an issue url, the run exits with 0 and
  saves the empty cache;
  the cache changes only in that last case: only after the issue that carries the
  digest generated from the drained articles is confirmed created;
  a run that does not exit with 0 leaves the stores as they were, so the next drain
  reads the same articles; a run that exits with 0 leaves the cache empty; the queue
  and the ledger are never touched.
\<close>

theorem digest_two_phase:
  "(articles_text st = Inl e \<or>
      (articles_text st = Inr listing \<and> generate_brief env listing = Inl e) \<longrightarrow>
      snd (workflow_daily_brief cfg env st) = st \<and>
      (cache st \<noteq> [] \<longrightarrow> fst (workflow_daily_brief cfg env st) = 1))
   \<and> (articles_text st = Inr listing \<and> generate_brief env listing = Inr brief_content \<and>
       (\<not> repo_splits cfg \<or> create_issue env brief_content = Inl e \<or>
        (create_issue env brief_content = Inr response \<and>
           (status_code response \<noteq> 201 \<or> html_url response = None))) \<longrightarrow>
      snd (workflow_daily_brief cfg env st) = st \<and>
      (cache st \<noteq> [] \<longrightarrow> fst (workflow_daily_brief cfg env st) = 1))
   \<and> (truthy (GEMINI_API_KEY cfg) \<and> truthy (GITHUB_TOKEN cfg) \<and> cache st \<noteq> [] \<and>
       articles_text st = Inr listing \<and> generate_brief env listing = Inr brief_content \<and>
       repo_splits cfg \<and> create_issue env brief_content = Inr response \<and>
       status_code response = 201 \<and> html_url response = Some u \<longrightarrow>
      workflow_daily_brief cfg env st = (0, st\<lparr>cache := []\<rparr>))
   \<and> (cache (snd (workflow_daily_brief cfg env st)) \<noteq> cache st \<longrightarrow>
      fst (workflow_daily_brief cfg env st) = 0 \<and>
      cache (snd (workflow_daily_brief cfg env st)) = [] \<and>
      (\<exists>listing brief_content response u.
          articles_text st = Inr listing \<and> generate_brief env listing = Inr brief_content \<and>
          create_issue env brief_content = Inr response \<and> status_code response = 201 \<and>
          html_url response = Some u))
   \<and> (fst (workflow_daily_brief cfg env st) \<noteq> 0 \<longrightarrow>
      snd (workflow_daily_brief cfg env st) = st \<and>
      drain (snd (workflow_daily_brief cfg env st)) = drain st)
   \<and> (fst (workflow_daily_brief cfg env st) = 0 \<longrightarrow>
      cache (snd (workflow_daily_brief cfg env st)) = [])
   \<and> queue (snd (workflow_daily_brief cfg env st)) = queue st
   \<and> posted (snd (workflow_daily_brief cfg env st)) = posted st"
proof (intro conjI impI)
  assume "articles_text st = Inl e \<or>
      (articles_text st = Inr listing \<and> generate_brief env listing = Inl e)"
  from brief_try_generation_fails [OF this]
  have "(\<exists>e. brief_try cfg env st = Inl e) \<or> brief_try cfg env st = Inr (1, st)" by blast
  from workflow_daily_brief_failure [OF this]
  show "snd (workflow_daily_brief cfg env st) = st"
    and "cache st \<noteq> [] \<Longrightarrow> fst (workflow_daily_brief cfg env st) = 1"
    by blast+
next
  assume a: "articles_text st = Inr listing \<and> generate_brief env listing = Inr brief_content \<and>
       (\<not> repo_splits cfg \<or> create_issue env brief_content = Inl e \<or>
        (create_issue env brief_content = Inr response \<and>
           (status_code response \<noteq> 201 \<or> html_url response = None)))"
  then have "(\<exists>e. brief_try cfg env st = Inl e) \<or> brief_try cfg env st = Inr (1, st)"
    using brief_try_delivery_fails [of st listing env brief_content cfg e response] by blast
  from workflow_daily_brief_failure [OF this]
  show "snd (workflow_daily_brief cfg env st) = st"
    and "cache st \<noteq> [] \<Longrightarrow> fst (workflow_daily_brief cfg env st) = 1"
    by blast+
next
  assume a: "truthy (GEMINI_API_KEY cfg) \<and> truthy (GITHUB_TOKEN cfg) \<and> cache st \<noteq> [] \<and>
       articles_text st = Inr listing \<and> generate_brief env listing = Inr brief_content \<and>
       repo_splits cfg \<and> create_issue env brief_content = Inr response \<and>
       status_code response = 201 \<and> html_url response = Some u"
  then have "brief_try cfg env st = Inr (0, st\<lparr>cache := []\<rparr>)"
    using brief_try_delivered [of st listing env brief_content cfg response u] by blast
  with a show "workflow_daily_brief cfg env st = (0, st\<lparr>cache := []\<rparr>)"
    by (simp add: workflow_daily_brief_def drain_def)
next
  assume changed: "cache (snd (workflow_daily_brief cfg env st)) \<noteq> cache st"
  with workflow_daily_brief_cases [of cfg env st]
  have cleared: "workflow_daily_brief cfg env st = (0, st\<lparr>cache := []\<rparr>) \<and>
      (\<exists>listing brief_content response u.
          articles_text st = Inr listing \<and> generate_brief env listing = Inr brief_content \<and>
          create_issue env brief_content = Inr response \<and> status_code response = 201 \<and>
          html_url response = Some u)"
    by auto
  from cleared show "fst (workflow_daily_brief cfg env st) = 0" by simp
  from cleared show "cache (snd (workflow_daily_brief cfg env st)) = []" by simp
  from cleared show "\<exists>listing brief_content response u.
          articles_text st = Inr listing \<and> generate_brief env listing = Inr brief_content \<and>
          create_issue env brief_content = Inr response \<and> status_code response = 201 \<and>
          html_url response = Some u"
    by blast
next
  assume "fst (workflow_daily_brief cfg env st) \<noteq> 0"
  with workflow_daily_brief_cases [of cfg env st]
  have "workflow_daily_brief cfg env st = (1, st)" by auto
  then show "snd (workflow_daily_brief cfg env st) = st"
    and "drain (snd (workflow_daily_brief cfg env st)) = drain st"
    by simp_all
next
  assume "fst (workflow_daily_brief cfg env st) = 0"
  with workflow_daily_brief_cases [of cfg env st]
  show "cache (snd (workflow_daily_brief cfg env st)) = []" by auto
next
  from workflow_daily_brief_cases [of cfg env st]
  show "queue (snd (workflow_daily_brief cfg env st)) = queue st" by auto
next
  from workflow_daily_brief_cases [of cfg env st]
  show "posted (snd (workflow_daily_brief cfg env st)) = posted st" by auto
qed

lemma cached_nonempty: "cache cached_one \<noteq> []"
  by code_simp

lemma generation_raises:
  "articles_text cached_one
     = Inr (''- **Difficulty adjustment**'' @ [CHR 0x0A] @ ''  Source: Unknown'' @ [CHR 0x0A]
            @ ''  URL: a'')
   \<and> generate_brief failing_generation
        (''- **Difficulty adjustment**'' @ [CHR 0x0A] @ ''  Source: Unknown'' @ [CHR 0x0A]
            @ ''  URL: a'')
     = Inl (Raised ''generation failed'')"
  by code_simp

lemma sink_rejects:
  "articles_text cached_one
     = Inr (''- **Difficulty adjustment**'' @ [CHR 0x0A] @ ''  Source: Unknown'' @ [CHR 0x0A]
            @ ''  URL: a'')
   \<and> generate_brief failing_sink
        (''- **Difficulty adjustment**'' @ [CHR 0x0A] @ ''  Source: Unknown'' @ [CHR 0x0A]
            @ ''  URL: a'')
     = Inr ''Daily brief''
   \<and> create_issue failing_sink ''Daily brief'' = Inr \<lparr>status_code = 500, html_url = None\<rparr>
   \<and> status_code \<lparr>status_code = 500, html_url = None\<rparr> \<noteq> 201"
  by code_simp

lemma sink_accepts:
  "truthy (GEMINI_API_KEY example_config) \<and> truthy (GITHUB_TOKEN example_config)
   \<and> articles_text cached_one
     = Inr (''- **Difficulty adjustment**'' @ [CHR 0x0A] @ ''  Source: Unknown'' @ [CHR 0x0A]
            @ ''  URL: a'')
   \<and> generate_brief accepting_sink
        (''- **Difficulty adjustment**'' @ [CHR 0x0A] @ ''  Source: Unknown'' @ [CHR 0x0A]
            @ ''  URL: a'')
     = Inr ''Daily brief''
   \<and> repo_splits example_config
   \<and> create_issue accepting_sink ''Daily brief''
     = Inr \<lparr>status_code = 201, html_url = Some ''https://github.com/i/1''\<rparr>
   \<and> status_code \<lparr>status_code = 201, html_url = Some ''https://github.com/i/1''\<rparr> = 201
   \<and> html_url \<lparr>status_code = 201, html_url = Some ''https://github.com/i/1''\<rparr>
     = Some ''https://github.com/i/1''"
  by code_simp

text \<open>
  A cache of one article. With a generation that raises in front of a sink that would
  answer 201, and with a sink that answers 500, the run exits with 1 and the stores are
  unchanged; with a sink that answers 201 the run exits with 0 and the cache is empty.
\<close>

theorem digest_two_phase_witness:
  "workflow_daily_brief example_config failing_generation cached_one = (1, cached_one)
   \<and> workflow_daily_brief example_config failing_sink cached_one = (1, cached_one)
   \<and> workflow_daily_brief example_config accepting_sink cached_one
       = (0, cached_one\<lparr>cache := []\<rparr>)"
proof -
  from digest_two_phase [where cfg = example_config and env = failing_generation
      and st = cached_one and e = "Raised ''generation failed''"
      and listing = "''- **Difficulty adjustment**'' @ [CHR 0x0A] @ ''  Source: Unknown''
                     @ [CHR 0x0A] @ ''  URL: a''"]
    generation_raises cached_nonempty
  have "snd (workflow_daily_brief example_config failing_generation cached_one) = cached_one
      \<and> fst (workflow_daily_brief example_config failing_generation cached_one) = 1"
    by blast
  then have a: "workflow_daily_brief example_config failing_generation cached_one
      = (1, cached_one)"
    by (simp add: prod_eq_iff)
  from digest_two_phase [where cfg = example_config and env = failing_sink
      and st = cached_one and brief_content = "''Daily brief''"
      and response = "\<lparr>status_code = 500, html_url = None\<rparr>"
      and listing = "''- **Difficulty adjustment**'' @ [CHR 0x0A] @ ''  Source: Unknown''
                     @ [CHR 0x0A] @ ''  URL: a''"]
    sink_rejects cached_nonempty
  have "snd (workflow_daily_brief example_config failing_sink cached_one) = cached_one
      \<and> fst (workflow_daily_brief example_config failing_sink cached_one) = 1"
    by blast
  then have b: "workflow_daily_brief example_config failing_sink cached_one = (1, cached_one)"
    by (simp add: prod_eq_iff)
  from digest_two_phase [where cfg = example_config and env = accepting_sink
      and st = cached_one and brief_content = "''Daily brief''"
      and response = "\<lparr>status_code = 201, html_url = Some ''https://github.com/i/1''\<rparr>"
      and u = "''https://github.com/i/1''"
      and listing = "''- **Difficulty adjustment**'' @ [CHR 0x0A] @ ''  Source: Unknown''
                     @ [CHR 0x0A] @ ''  URL: a''"]
    sink_accepts cached_nonempty
  have c: "workflow_daily_brief example_config accepting_sink cached_one
      = (0, cached_one\<lparr>cache := []\<rparr>)"
    by blast
  from a b c show ?thesis by blast
qed


section \<open>Properties of the queue update\<close>

lemma make_entry_fields:
  "make_entry lib now a = Inr entry \<Longrightarrow>
     a_url a = Some (q_url entry) \<and> q_body entry = take 500 (get_str (a_body a))"
  by (auto simp: make_entry_def split: option.splits)

lemma push_new_shape:
  "push_new lib now queue_urls as q = Inr q' \<Longrightarrow>
     \<exists>new. q' = q @ new \<and>
       list_all2 (\<lambda>entry a. make_entry lib now a = Inr entry) new
         (filter (\<lambda>a. case a_url a of None \<Rightarrow> True | Some u \<Rightarrow> u \<notin> queue_urls) as)"
proof (induction as arbitrary: q q')
  case Nil
  then show ?case by simp
next
  case (Cons a as)
  let ?P = "\<lambda>a. case a_url a of None \<Rightarrow> True | Some u \<Rightarrow> u \<notin> queue_urls"
  show ?case
  proof (cases "?P a")
    case True
    with Cons.prems obtain entry where
      entry: "make_entry lib now a = Inr entry"
      and rest: "push_new lib now queue_urls as (q @ [entry]) = Inr q'"
      by (auto split: sum.splits)
    from Cons.IH [OF rest] obtain new where
      new: "q' = (q @ [entry]) @ new"
        "list_all2 (\<lambda>entry a. make_entry lib now a = Inr entry) new (filter ?P as)"
      by blast
    from new(1) have "q' = q @ (entry # new)" by simp
    moreover from new(2) entry True
    have "list_all2 (\<lambda>entry a. make_entry lib now a = Inr entry) (entry # new)
            (filter ?P (a # as))"
      by simp
    ultimately show ?thesis by blast
  next
    case False
    with Cons.prems have "push_new lib now queue_urls as q = Inr q'" by simp
    from Cons.IH [OF this] False show ?thesis by simp
  qed
qed

lemma trim_queue_suffix: "suffix (trim_queue m q) q"
  by (simp add: trim_queue_def py_slice_from_def suffix_drop)

lemma trim_queue_length:
  "0 < m \<Longrightarrow> length (trim_queue m q) = min (length q) (nat m)"
  by (auto simp: trim_queue_def py_slice_from_def)

lemma monitor_stores_queue:
  "queue (snd (monitor_stores cfg lib now unique_articles st)) =
     (case push_new lib now (set (map q_url (queue st))) unique_articles (queue st) of
        Inl e \<Rightarrow> queue st
      | Inr q1 \<Rightarrow> trim_queue (MAX_QUEUE_SIZE cfg) q1)"
  by (simp add: monitor_stores_def Let_def split: sum.splits)

lemma monitor_stores_pushed:
  "fst (monitor_stores cfg lib now unique_articles st) = 0 \<Longrightarrow>
     \<exists>q1. push_new lib now (set (map q_url (queue st))) unique_articles (queue st) = Inr q1"
  by (simp add: monitor_stores_def Let_def split: sum.splits)

text \<open>
  Claim C4. With a positive \<open>MAX_QUEUE_SIZE\<close>, the queue update of \<open>workflow_monitor\<close>
  keeps a queue that was within the bound within the bound; and when the update
  completes, the saved queue is the suffix of the old queue followed by the newly
  pushed entries, of length the smaller of that list's length and the bound: entries are
  evicted from the head, and the most recently pushed ones are retained.
\<close>

theorem queue_bound_fifo_eviction:
  assumes "0 < MAX_QUEUE_SIZE cfg"
  shows "(int (length (queue st)) \<le> MAX_QUEUE_SIZE cfg \<longrightarrow>
            int (length (queue (snd (monitor_stores cfg lib now unique_articles st))))
              \<le> MAX_QUEUE_SIZE cfg)
       \<and> (fst (monitor_stores cfg lib now unique_articles st) = 0 \<longrightarrow>
            (\<exists>new.
               list_all2 (\<lambda>entry a. make_entry lib now a = Inr entry) new
                 (filter (\<lambda>a. case a_url a of None \<Rightarrow> True
                               | Some u \<Rightarrow> u \<notin> set (map q_url (queue st))) unique_articles)
               \<and> suffix (queue (snd (monitor_stores cfg lib now unique_articles st)))
                    (queue st @ new)
               \<and> length (queue (snd (monitor_stores cfg lib now unique_articles st)))
                    = min (length (queue st @ new)) (nat (MAX_QUEUE_SIZE cfg))))"
proof (intro conjI impI)
  assume le: "int (length (queue st)) \<le> MAX_QUEUE_SIZE cfg"
  show "int (length (queue (snd (monitor_stores cfg lib now unique_articles st))))
          \<le> MAX_QUEUE_SIZE cfg"
  proof (cases "push_new lib now (set (map q_url (queue st))) unique_articles (queue st)")
    case (Inl e)
    with le show ?thesis by (simp add: monitor_stores_queue)
  next
    case (Inr q1)
    from trim_queue_length [OF assms, of q1] assms
    have "int (length (trim_queue (MAX_QUEUE_SIZE cfg) q1)) \<le> MAX_QUEUE_SIZE cfg" by simp
    with Inr show ?thesis by (simp add: monitor_stores_queue)
  qed
next
  assume "fst (monitor_stores cfg lib now unique_articles st) = 0"
  from monitor_stores_pushed [OF this] obtain q1 where
    q1: "push_new lib now (set (map q_url (queue st))) unique_articles (queue st) = Inr q1"
    by blast
  from push_new_shape [OF q1] obtain new where
    new: "q1 = queue st @ new"
      "list_all2 (\<lambda>entry a. make_entry lib now a = Inr entry) new
         (filter (\<lambda>a. case a_url a of None \<Rightarrow> True
                       | Some u \<Rightarrow> u \<notin> set (map q_url (queue st))) unique_articles)"
    by blast
  from q1 have saved: "queue (snd (monitor_stores cfg lib now unique_articles st))
      = trim_queue (MAX_QUEUE_SIZE cfg) q1"
    by (simp add: monitor_stores_queue)
  from trim_queue_suffix [of "MAX_QUEUE_SIZE cfg" q1] saved new(1)
  have s: "suffix (queue (snd (monitor_stores cfg lib now unique_articles st))) (queue st @ new)"
    by simp
  from trim_queue_length [OF assms, of q1] saved new(1)
  have l: "length (queue (snd (monitor_stores cfg lib now unique_articles st)))
      = min (length (queue st @ new)) (nat (MAX_QUEUE_SIZE cfg))"
    by simp
  from new(2) s l
  show "\<exists>new.
          list_all2 (\<lambda>entry a. make_entry lib now a = Inr entry) new
            (filter (\<lambda>a. case a_url a of None \<Rightarrow> True
                          | Some u \<Rightarrow> u \<notin> set (map q_url (queue st))) unique_articles)
          \<and> suffix (queue (snd (monitor_stores cfg lib now unique_articles st)))
               (queue st @ new)
          \<and> length (queue (snd (monitor_stores cfg lib now unique_articles st)))
               = min (length (queue st @ new)) (nat (MAX_QUEUE_SIZE cfg))"
    by blast
qed

lemma xyz_bound: "0 < MAX_QUEUE_SIZE example_config"
  by code_simp

lemma xyz_full: "int (length (queue queue_xyz)) \<le> MAX_QUEUE_SIZE example_config"
  by code_simp

lemma xyz_push:
  "queue (snd (monitor_stores example_config example_lib noon
                 [example_article ''w'' (Some ''2024-01-15T12:00:00'')] queue_xyz))
     = [example_entry ''y'', example_entry ''z'', example_entry ''w'']"
  by code_simp

text \<open>
  Bound 3, queue \<open>[x, y, z]\<close> and one new article \<open>w\<close>: the saved queue is
  \<open>[y, z, w]\<close>.
\<close>

theorem queue_bound_fifo_eviction_witness:
  "0 < MAX_QUEUE_SIZE example_config
   \<and> queue queue_xyz = [example_entry ''x'', example_entry ''y'', example_entry ''z'']
   \<and> queue (snd (monitor_stores example_config example_lib noon
                 [example_article ''w'' (Some ''2024-01-15T12:00:00'')] queue_xyz))
       = [example_entry ''y'', example_entry ''z'', example_entry ''w'']
   \<and> int (length (queue (snd (monitor_stores example_config example_lib noon
                 [example_article ''w'' (Some ''2024-01-15T12:00:00'')] queue_xyz))))
       \<le> MAX_QUEUE_SIZE example_config"
proof -
  from queue_bound_fifo_eviction [OF xyz_bound, of queue_xyz example_lib noon
             "[example_article ''w'' (Some ''2024-01-15T12:00:00'')]"] xyz_full
  have "int (length (queue (snd (monitor_stores example_config example_lib noon
                 [example_article ''w'' (Some ''2024-01-15T12:00:00'')] queue_xyz))))
       \<le> MAX_QUEUE_SIZE example_config"
    by blast
  with xyz_bound xyz_push show ?thesis by (simp add: queue_xyz_def)
qed

lemma list_all2_left:
  "list_all2 P xs ys \<Longrightarrow> x \<in> set xs \<Longrightarrow> \<exists>y \<in> set ys. P x y"
  by (induction rule: list_all2_induct) auto

lemma monitor_stores_entries:
  assumes "entry \<in> set (queue (snd (monitor_stores cfg lib now unique_articles st)))"
  shows "entry \<in> set (queue st) \<or>
         (\<exists>a \<in> set unique_articles. make_entry lib now a = Inr entry)"
proof (cases "push_new lib now (set (map q_url (queue st))) unique_articles (queue st)")
  case (Inl e)
  with assms show ?thesis by (simp add: monitor_stores_queue)
next
  case (Inr q1)
  from push_new_shape [OF Inr] obtain new where
    new: "q1 = queue st @ new"
      "list_all2 (\<lambda>entry a. make_entry lib now a = Inr entry) new
         (filter (\<lambda>a. case a_url a of None \<Rightarrow> True
                       | Some u \<Rightarrow> u \<notin> set (map q_url (queue st))) unique_articles)"
    by blast
  from assms Inr have "entry \<in> set (trim_queue (MAX_QUEUE_SIZE cfg) q1)"
    by (simp add: monitor_stores_queue)
  with trim_queue_suffix [of "MAX_QUEUE_SIZE cfg" q1] have "entry \<in> set q1"
    using set_mono_suffix by blast
  with new(1) have "entry \<in> set (queue st) \<or> entry \<in> set new" by simp
  then show ?thesis
  proof
    assume "entry \<in> set (queue st)"
    then show ?thesis by simp
  next
    assume "entry \<in> set new"
    from list_all2_left [OF new(2) this] show ?thesis by auto
  qed
qed

text \<open>
  Claim C10. Every entry of the queue saved by the queue update of \<open>workflow_monitor\<close>
  was already in the queue or was made from one of the articles of the batch, and then
  its body is the first 500 characters of the article's body (the empty string when the
  article has no body): at most 500 characters.
\<close>

theorem queue_entry_body_excerpt:
  "\<forall>entry \<in> set (queue (snd (monitor_stores cfg lib now unique_articles st))).
      entry \<in> set (queue st) \<or>
      (\<exists>a \<in> set unique_articles.
          q_body entry = take 500 (get_str (a_body a)) \<and> length (q_body entry) \<le> 500)"
proof
  fix entry
  assume "entry \<in> set (queue (snd (monitor_stores cfg lib now unique_articles st)))"
  from monitor_stores_entries [OF this]
  show "entry \<in> set (queue st) \<or>
      (\<exists>a \<in> set unique_articles.
          q_body entry = take 500 (get_str (a_body a)) \<and> length (q_body entry) \<le> 500)"
  proof
    assume "entry \<in> set (queue st)"
    then show ?thesis by simp
  next
    assume "\<exists>a \<in> set unique_articles. make_entry lib now a = Inr entry"
    then obtain a where a: "a \<in> set unique_articles" "make_entry lib now a = Inr entry"
      by blast
    from make_entry_fields [OF a(2)]
    have "q_body entry = take 500 (get_str (a_body a)) \<and> length (q_body entry) \<le> 500"
      by simp
    with a(1) show ?thesis by blast
  qed
qed

lemma long_member:
  "queue (snd (monitor_stores example_config example_lib noon [long_article] queue_ab)) ! 2
     \<in> set (queue (snd (monitor_stores example_config example_lib noon [long_article] queue_ab)))"
  by code_simp

lemma long_fresh:
  "queue (snd (monitor_stores example_config example_lib noon [long_article] queue_ab)) ! 2
     \<notin> set (queue queue_ab)"
  by code_simp

lemma long_body: "length (get_str (a_body long_article)) = 600"
  by code_simp

text \<open>
  An article with a body of 600 characters, pushed behind \<open>[a, b]\<close>: the third entry
  of the saved queue holds the first 500 characters.
\<close>

theorem queue_entry_body_excerpt_witness:
  "queue (snd (monitor_stores example_config example_lib noon [long_article] queue_ab)) ! 2
     \<in> set (queue (snd (monitor_stores example_config example_lib noon [long_article] queue_ab)))
   \<and> length (get_str (a_body long_article)) = 600
   \<and> q_body (queue (snd (monitor_stores example_config example_lib noon [long_article]
                            queue_ab)) ! 2)
       = take 500 (get_str (a_body long_article))
   \<and> length (q_body (queue (snd (monitor_stores example_config example_lib noon [long_article]
                                    queue_ab)) ! 2)) \<le> 500"
proof -
  from queue_entry_body_excerpt [of example_config example_lib noon "[long_article]" queue_ab]
    long_member long_fresh
  have "q_body (queue (snd (monitor_stores example_config example_lib noon [long_article]
                            queue_ab)) ! 2)
       = take 500 (get_str (a_body long_article))
   \<and> length (q_body (queue (snd (monitor_stores example_config example_lib noon [long_article]
                                    queue_ab)) ! 2)) \<le> 500"
    by auto
  with long_member long_body show ?thesis by blast
qed

section \<open>Properties of runs\<close>










end
